theory Spec2Isabelle
  imports Complex_Main
begin

section \<open>Data model (types.ts)\<close>

text \<open>
  The enums of \<^verbatim>\<open>types.ts\<close>. The interface fields \<^verbatim>\<open>x\<close>, \<^verbatim>\<open>y\<close>,
  \<^verbatim>\<open>type\<close>, \<^verbatim>\<open>color\<close>, \<^verbatim>\<open>from\<close>, \<^verbatim>\<open>to\<close> are the record fields
  \<open>px\<close>, \<open>py\<close>, \<open>ptype\<close>, \<open>pcolor\<close>, \<open>mfrom\<close>, \<open>mto\<close>.
  Coordinates are natural numbers (\<^verbatim>\<open>x: number; // 0-8\<close>, \<^verbatim>\<open>y: number; // 0-9\<close>);
  negative and fractional JavaScript numbers are outside the model, indices past the end
  of an array are inside it.
\<close>

datatype Color = RED | BLACK

datatype PieceType = GENERAL | ADVISOR | ELEPHANT | HORSE | ROOK | CANNON | SOLDIER

record Position =
  px :: nat
  py :: nat

record Piece =
  ptype :: PieceType
  pcolor :: Color

record Move =
  mfrom :: Position
  mto :: Position

datatype GameStatus = PLAYING | CHECKMATE | STALEMATE | DRAW

datatype Difficulty = EASY | MEDIUM | HARD

text \<open>
  \<^verbatim>\<open>BoardState\<close> is \<^verbatim>\<open>(Piece | null)[][]\<close>, indexed \<^verbatim>\<open>board[y][x]\<close>. \<open>None\<close>
  stands for \<^verbatim>\<open>null\<close> and for \<^verbatim>\<open>undefined\<close> alike: the component only ever tests
  a square for truthiness or reads it through \<^verbatim>\<open>?.\<close>.
\<close>

type_synonym BoardState = "Piece option list list"

text \<open>
  What can be thrown: a TypeError from indexing or reading a field of
  \<^verbatim>\<open>undefined\<close>, whatever the awaited move-suggestion service rejects with, and
  the parser's error carrying the offending token.
\<close>

datatype error = TypeError | ServiceError | ParseError string

section \<open>The state of the App component (part\_000, lines 17--25)\<close>

text \<open>
  The nine \<^verbatim>\<open>useState\<close> cells. The board's type is a parameter: it is a
  \<open>BoardState\<close> value in the functional model and an address in the store model
  further down.
\<close>

record 'b AppState =
  board :: 'b
  turn :: Color
  selectedPos :: "Position option"
  validDestinations :: "Position list"
  gameStatus :: GameStatus
  lastMove :: "Move option"
  difficulty :: Difficulty
  isAiThinking :: bool
  aiError :: "string option"

section \<open>JavaScript array reads and writes\<close>

text \<open>
  \<^verbatim>\<open>board[p.y][p.x]\<close>: when \<^verbatim>\<open>board[p.y]\<close> is \<^verbatim>\<open>undefined\<close> the second index
  throws a TypeError; a column past the end of the row reads \<^verbatim>\<open>undefined\<close>.
\<close>

definition board_at :: "BoardState \<Rightarrow> Position \<Rightarrow> error + Piece option" where
  "board_at b p =
     (if py p < length b
      then Inr (if px p < length (b ! py p) then b ! py p ! px p else None)
      else Inl TypeError)"

text \<open>
  \<^verbatim>\<open>row[i] = v\<close>: an index past the end extends the array, the slots in between
  being holes (which read \<^verbatim>\<open>undefined\<close>).
\<close>

definition js_set :: "'a option list \<Rightarrow> nat \<Rightarrow> 'a option \<Rightarrow> 'a option list" where
  "js_set row i v =
     (if i < length row then row[i := v]
      else row @ replicate (i - length row) None @ [v])"

text \<open>\<^verbatim>\<open>b[p.y][p.x] = v\<close> on a board whose row \<^verbatim>\<open>p.y\<close> exists.\<close>

definition board_set :: "BoardState \<Rightarrow> Position \<Rightarrow> Piece option \<Rightarrow> BoardState" where
  "board_set b p v = b[py p := js_set (b ! py p) (px p) v]"

section \<open>executeMove (part\_000, lines 75--110)\<close>

text \<open>
  The legal-move generator \<^verbatim>\<open>getLegalMoves\<close> is imported from
  \<^verbatim>\<open>./utils/xiangqi\<close>; it is the parameter \<open>getLegalMoves\<close> of every function
  that calls it. The closure reads \<^verbatim>\<open>board\<close> and \<^verbatim>\<open>turn\<close> of the current
  render and calls the setters with plain values, so the state of the next render is the
  current one with those cells replaced. Both places that can throw (lines 76 and 80)
  come before the first setter: \<open>Inl\<close> means the exception leaves the state as it was.
\<close>

definition newBoard :: "BoardState \<Rightarrow> Move \<Rightarrow> Piece \<Rightarrow> BoardState" where
  "newBoard b move movingPiece =
     board_set (board_set b (mto move) (Some movingPiece)) (mfrom move) None"

definition nextTurn :: "Color \<Rightarrow> Color" where
  "nextTurn t = (if t = RED then BLACK else RED)"

definition executeMove ::
  "(BoardState \<Rightarrow> Color \<Rightarrow> Move list) \<Rightarrow> BoardState AppState \<Rightarrow> Move
     \<Rightarrow> error + BoardState AppState" where
  "executeMove getLegalMoves s move =
     (case board_at (board s) (mfrom move) of
        Inl e \<Rightarrow> Inl e
      | Inr None \<Rightarrow> Inr s
      | Inr (Some movingPiece) \<Rightarrow>
          (case board_at (board s) (mto move) of
             Inl e \<Rightarrow> Inl e
           | Inr targetPiece \<Rightarrow>
               (let nb = newBoard (board s) move movingPiece;
                    s1 = s\<lparr>board := nb, lastMove := Some move,
                           selectedPos := None, validDestinations := []\<rparr>
                in if map_option ptype targetPiece = Some GENERAL
                   then Inr (s1\<lparr>gameStatus := CHECKMATE\<rparr>)
                   else
                     (let nt = nextTurn (turn s);
                          s2 = s1\<lparr>turn := nt\<rparr>;
                          nextPlayerMoves = getLegalMoves nb nt
                      in if length nextPlayerMoves = 0
                         then Inr (s2\<lparr>gameStatus := CHECKMATE\<rparr>)
                         else Inr s2))))"

section \<open>handleSquareClick (part\_000, lines 47--73)\<close>


section \<open>The AI turn (part\_000, lines 112--157)\<close>

text \<open>
  \<^verbatim>\<open>await getBestMove(fen, difficulty, legalMoves, Color.RED)\<close> either rejects or
  resolves to a move or to nothing. The service (\<^verbatim>\<open>./services/geminiService\<close>) and
  the serializer \<^verbatim>\<open>boardToFEN\<close> are parameters.
\<close>

datatype BestMove = Rejects | Resolves "Move option"

text \<open>
  \<^verbatim>\<open>Math.floor(Math.random() * n)\<close>, for a draw \<open>u\<close> of \<^verbatim>\<open>Math.random()\<close>
  (a number in \<open>[0, 1)\<close>, taken as a real: rounding of the product is not modelled).
\<close>

definition randomIndex :: "real \<Rightarrow> nat \<Rightarrow> nat" where
  "randomIndex u n = nat \<lfloor>u * real n\<rfloor>"

text \<open>\<^verbatim>\<open>xs[i]\<close>: \<^verbatim>\<open>undefined\<close> past the end.\<close>

definition js_nth :: "'a list \<Rightarrow> nat \<Rightarrow> 'a option" where
  "js_nth xs i = (if i < length xs then Some (xs ! i) else None)"

text \<open>
  \<^verbatim>\<open>executeMove(legalMoves[Math.floor(Math.random() * legalMoves.length)])\<close>;
  \<^verbatim>\<open>executeMove(undefined)\<close> throws at \<^verbatim>\<open>move.from\<close>.
\<close>

definition executeRandom ::
  "(BoardState \<Rightarrow> Color \<Rightarrow> Move list) \<Rightarrow> BoardState AppState \<Rightarrow> Move list \<Rightarrow> real
     \<Rightarrow> error + BoardState AppState" where
  "executeRandom getLegalMoves s legalMoves u =
     (case js_nth legalMoves (randomIndex u (length legalMoves)) of
        None \<Rightarrow> Inl TypeError
      | Some randomMove \<Rightarrow> executeMove getLegalMoves s randomMove)"

text \<open>
  \<^verbatim>\<open>makeAiMove\<close> runs against the \<^verbatim>\<open>board\<close>, \<^verbatim>\<open>turn\<close> and
  \<^verbatim>\<open>difficulty\<close> of the render that started it. It is modelled as one atomic step:
  no other state change is interleaved with it. \<open>u1\<close> and \<open>u2\<close> are the draws of
  \<^verbatim>\<open>Math.random()\<close> in the \<^verbatim>\<open>try\<close> and in the \<^verbatim>\<open>catch\<close> block. The
  result is the final state and the exception that escapes the \<^verbatim>\<open>catch\<close> block, if
  one does; \<^verbatim>\<open>finally\<close> clears \<^verbatim>\<open>isAiThinking\<close> on every path.
\<close>

definition makeAiMove ::
  "(BoardState \<Rightarrow> Color \<Rightarrow> Move list) \<Rightarrow> (BoardState \<Rightarrow> Color \<Rightarrow> string)
     \<Rightarrow> (string \<Rightarrow> Difficulty \<Rightarrow> Move list \<Rightarrow> Color \<Rightarrow> BestMove)
     \<Rightarrow> real \<Rightarrow> real \<Rightarrow> BoardState AppState
     \<Rightarrow> BoardState AppState \<times> error option" where
  "makeAiMove getLegalMoves boardToFEN getBestMove u1 u2 s =
     (let s0 = s\<lparr>isAiThinking := True, aiError := None\<rparr>;
          fen = boardToFEN (board s) (turn s);
          legalMoves = getLegalMoves (board s) (turn s)
      in if length legalMoves = 0
         then (s0\<lparr>gameStatus := CHECKMATE, isAiThinking := False\<rparr>, None)
         else
           (case
              (case getBestMove fen (difficulty s) legalMoves RED of
                 Rejects \<Rightarrow> Inl ServiceError
               | Resolves (Some bestMove) \<Rightarrow> executeMove getLegalMoves s0 bestMove
               | Resolves None \<Rightarrow> executeRandom getLegalMoves s0 legalMoves u1)
            of
              Inr s' \<Rightarrow> (s'\<lparr>isAiThinking := False\<rparr>, None)
            | Inl e \<Rightarrow>
                (let s1 = s0\<lparr>aiError := Some ''AI had trouble thinking. Retrying...''\<rparr>;
                     legalMoves2 = getLegalMoves (board s) (turn s)
                 in if length legalMoves2 > 0
                    then
                      (case executeRandom getLegalMoves s1 legalMoves2 u2 of
                         Inr s' \<Rightarrow> (s'\<lparr>isAiThinking := False\<rparr>, None)
                       | Inl e2 \<Rightarrow> (s1\<lparr>isAiThinking := False\<rparr>, Some e2))
                    else (s1\<lparr>isAiThinking := False\<rparr>, None))))"

text \<open>The effect of lines 113--157: it starts \<^verbatim>\<open>makeAiMove\<close> when Black is to move.\<close>

definition aiTurnEffect ::
  "(BoardState \<Rightarrow> Color \<Rightarrow> Move list) \<Rightarrow> (BoardState \<Rightarrow> Color \<Rightarrow> string)
     \<Rightarrow> (string \<Rightarrow> Difficulty \<Rightarrow> Move list \<Rightarrow> Color \<Rightarrow> BestMove)
     \<Rightarrow> real \<Rightarrow> real \<Rightarrow> BoardState AppState
     \<Rightarrow> BoardState AppState \<times> error option" where
  "aiTurnEffect getLegalMoves boardToFEN getBestMove u1 u2 s =
     (if turn s = BLACK \<and> gameStatus s = PLAYING
      then makeAiMove getLegalMoves boardToFEN getBestMove u1 u2 s
      else (s, None))"

section \<open>getStatusText (part\_000, lines 159--166)\<close>

definition getStatusText :: "'b AppState \<Rightarrow> string" where
  "getStatusText s =
     (if gameStatus s = CHECKMATE
      then (if turn s = RED then ''You Lost!'' else ''You Won!'')
      else if gameStatus s = STALEMATE then ''Stalemate''
      else if isAiThinking s then ''AI is thinking...''
      else if turn s = RED then ''Your Turn (Red)'' else ''Waiting...'')"

section \<open>resetGame (part\_000, lines 14 and 35--45)\<close>

definition INITIAL_FEN :: string where
  "INITIAL_FEN = ''rnbakabnr/9/1c5c1/p1p1p1p1p/9/9/P1P1P1P1P/1C5C1/9/RNBAKABNR w - - 0 1''"

text \<open>The parser \<^verbatim>\<open>createBoardFromFEN\<close> of \<^verbatim>\<open>./utils/xiangqi\<close> is a parameter.\<close>

definition resetGame ::
  "(string \<Rightarrow> error + BoardState \<times> Color) \<Rightarrow> BoardState AppState
     \<Rightarrow> error + BoardState AppState" where
  "resetGame createBoardFromFEN s =
     (case createBoardFromFEN INITIAL_FEN of
        Inl e \<Rightarrow> Inl e
      | Inr (initialBoard, initialTurn) \<Rightarrow>
          Inr (s\<lparr>board := initialBoard, turn := initialTurn, gameStatus := PLAYING,
                 lastMove := None, selectedPos := None, validDestinations := [],
                 isAiThinking := False, aiError := None\<rparr>))"

section \<open>The store: a board as an array of row arrays\<close>

text \<open>
  The functional model above cannot say that an array is shared. Here a board is the
  address of an array of addresses of row arrays, as in JavaScript; an address is an
  index into the store and allocation appends. An address a program holds always points
  to an object of the right kind, which \<open>wf_board\<close> states; the readers below return
  an empty array elsewhere.
\<close>

type_synonym addr = nat

datatype obj = RowArr "Piece option list" | BoardArr "addr list"

type_synonym store = "obj list"

definition alloc :: "store \<Rightarrow> obj \<Rightarrow> store \<times> addr" where
  "alloc h ob = (h @ [ob], length h)"

definition rowsOf :: "store \<Rightarrow> addr \<Rightarrow> addr list" where
  "rowsOf h a = (case js_nth h a of Some (BoardArr rs) \<Rightarrow> rs | _ \<Rightarrow> [])"

definition cellsOf :: "store \<Rightarrow> addr \<Rightarrow> Piece option list" where
  "cellsOf h r = (case js_nth h r of Some (RowArr cs) \<Rightarrow> cs | _ \<Rightarrow> [])"

definition wf_board :: "store \<Rightarrow> addr \<Rightarrow> bool" where
  "wf_board h a =
     (case js_nth h a of
        Some (BoardArr rs) \<Rightarrow>
          list_all (\<lambda>r. case js_nth h r of Some (RowArr cs) \<Rightarrow> True | _ \<Rightarrow> False) rs
      | _ \<Rightarrow> False)"

text \<open>The board value an address stands for.\<close>

definition absBoard :: "store \<Rightarrow> addr \<Rightarrow> BoardState" where
  "absBoard h a = map (cellsOf h) (rowsOf h a)"

text \<open>\<^verbatim>\<open>board[p.y][p.x]\<close> and \<^verbatim>\<open>board[p.y][p.x] = v\<close> through the store.\<close>

definition store_at :: "store \<Rightarrow> addr \<Rightarrow> Position \<Rightarrow> error + Piece option" where
  "store_at h a p =
     (if py p < length (rowsOf h a)
      then Inr (let cs = cellsOf h (rowsOf h a ! py p)
                in if px p < length cs then cs ! px p else None)
      else Inl TypeError)"

definition store_set :: "store \<Rightarrow> addr \<Rightarrow> Position \<Rightarrow> Piece option \<Rightarrow> store" where
  "store_set h a p v =
     (let r = rowsOf h a ! py p
      in h[r := RowArr (js_set (cellsOf h r) (px p) v)])"

text \<open>
  \<^verbatim>\<open>board.map(row => [...row])\<close> (line 83): every row is copied into a new array, and
  the copies are collected in a new outer array.
\<close>

fun copyRows :: "store \<Rightarrow> addr list \<Rightarrow> store \<times> addr list" where
  "copyRows h [] = (h, [])"
| "copyRows h (r # rs) =
     (let (h1, r') = alloc h (RowArr (cellsOf h r));
          (h2, rs') = copyRows h1 rs
      in (h2, r' # rs'))"

definition copyBoard :: "store \<Rightarrow> addr \<Rightarrow> store \<times> addr" where
  "copyBoard h a =
     (let (h1, rs') = copyRows h (rowsOf h a)
      in alloc h1 (BoardArr rs'))"

text \<open>\<^verbatim>\<open>executeMove\<close> again, line by line, on the store.\<close>

definition executeMoveS ::
  "(BoardState \<Rightarrow> Color \<Rightarrow> Move list) \<Rightarrow> store \<times> addr AppState \<Rightarrow> Move
     \<Rightarrow> error + store \<times> addr AppState" where
  "executeMoveS getLegalMoves hs move =
     (let h = fst hs; s = snd hs
      in case store_at h (board s) (mfrom move) of
        Inl e \<Rightarrow> Inl e
      | Inr None \<Rightarrow> Inr (h, s)
      | Inr (Some movingPiece) \<Rightarrow>
          (case store_at h (board s) (mto move) of
             Inl e \<Rightarrow> Inl e
           | Inr targetPiece \<Rightarrow>
               (let (h1, nb) = copyBoard h (board s);
                    h2 = store_set h1 nb (mto move) (Some movingPiece);
                    h3 = store_set h2 nb (mfrom move) None;
                    s1 = s\<lparr>board := nb, lastMove := Some move,
                           selectedPos := None, validDestinations := []\<rparr>
                in if map_option ptype targetPiece = Some GENERAL
                   then Inr (h3, s1\<lparr>gameStatus := CHECKMATE\<rparr>)
                   else
                     (let nt = nextTurn (turn s);
                          s2 = s1\<lparr>turn := nt\<rparr>;
                          nextPlayerMoves = getLegalMoves (absBoard h3 nb) nt
                      in if length nextPlayerMoves = 0
                         then Inr (h3, s2\<lparr>gameStatus := CHECKMATE\<rparr>)
                         else Inr (h3, s2)))))"

definition absState :: "store \<Rightarrow> addr AppState \<Rightarrow> BoardState AppState" where
  "absState h s =
     \<lparr>board = absBoard h (board s), turn = turn s, selectedPos = selectedPos s,
      validDestinations = validDestinations s, gameStatus = gameStatus s,
      lastMove = lastMove s, difficulty = difficulty s,
      isAiThinking = isAiThinking s, aiError = aiError s\<rparr>"

section \<open>The rules engine and the serializer, from the specification\<close>

text \<open>
  The module \<^verbatim>\<open>./utils/xiangqi\<close> (\<^verbatim>\<open>getLegalMoves\<close>, \<^verbatim>\<open>createBoardFromFEN\<close>,
  \<^verbatim>\<open>boardToFEN\<close>) is not among the source files. The general theorems below hold for
  every generator, parser and serializer. The definitions of this section follow the
  specification's sections 4.1 to 4.4 and serve as the concrete engine of the examples;
  they carry the specification's names (\<open>legalMoves\<close>, \<open>isInCheck\<close>,
  \<open>createFromEncoding\<close>, \<open>toEncoding\<close>; \<open>applyMove\<close> for \<^verbatim>\<open>apply\<close>).
  Row \<open>y\<close> of a board is the \<open>y\<close>-th record of the encoding, so rank \<open>r\<close> of the
  specification is row \<open>9 - r\<close>: Black's back rank is row 0, Red's is row 9.
\<close>

text \<open>Modelled from the spec: the Position invariant, 0 \<open>\<le>\<close> x \<open>\<le>\<close> 8 and 0 \<open>\<le>\<close> y \<open>\<le>\<close> 9
  (the helper \<^verbatim>\<open>isPosValid\<close> of the missing module).\<close>

definition isPosValid :: "int \<times> int \<Rightarrow> bool" where
  "isPosValid p = (0 \<le> fst p \<and> fst p \<le> 8 \<and> 0 \<le> snd p \<and> snd p \<le> 9)"

text \<open>Modelled from the spec: the Board as a grid mapping each Position to an optional
  Piece; the lookup of the missing module, with nothing outside the grid.\<close>

definition sq :: "BoardState \<Rightarrow> int \<times> int \<Rightarrow> Piece option" where
  "sq b p =
     (if isPosValid p
      then (case board_at b \<lparr>px = nat (fst p), py = nat (snd p)\<rparr> of
              Inr v \<Rightarrow> v
            | Inl e \<Rightarrow> None)
      else None)"

text \<open>Modelled from the spec: the rank of a row (rank 9 is encoded first); the missing
  module's orientation of the board.\<close>

definition rank :: "int \<Rightarrow> int" where
  "rank y = 9 - y"

text \<open>Modelled from the spec: a piece may land on an empty square or capture an enemy
  piece (stated for the rook, taken for every piece of the missing generator).\<close>

definition canLand :: "BoardState \<Rightarrow> Color \<Rightarrow> int \<times> int \<Rightarrow> bool" where
  "canLand b c p =
     (isPosValid p \<and> (case sq b p of None \<Rightarrow> True | Some q \<Rightarrow> pcolor q \<noteq> c))"

text \<open>Modelled from the spec: the 3x3 palace of the missing generator, files 3--5, Red
  ranks 0--2, Black ranks 7--9.\<close>

definition inPalace :: "Color \<Rightarrow> int \<times> int \<Rightarrow> bool" where
  "inPalace c p =
     (3 \<le> fst p \<and> fst p \<le> 5 \<and>
      (if c = RED then 0 \<le> rank (snd p) \<and> rank (snd p) \<le> 2
       else 7 \<le> rank (snd p) \<and> rank (snd p) \<le> 9))"

text \<open>Modelled from the spec: a side's own half of the board (the river lies between
  ranks 4 and 5), for the missing generator's elephant and soldier rules.\<close>

definition ownHalf :: "Color \<Rightarrow> int \<times> int \<Rightarrow> bool" where
  "ownHalf c p = (if c = RED then rank (snd p) \<le> 4 else 5 \<le> rank (snd p))"

text \<open>Modelled from the spec: the missing generator's General, one step orthogonally,
  confined to its palace. The flying-general rule is left out, the simplification the
  specification allows; no example below has the generals on one open file.\<close>

definition generalMoves :: "BoardState \<Rightarrow> Color \<Rightarrow> int \<times> int \<Rightarrow> (int \<times> int) list" where
  "generalMoves b c p =
     filter (\<lambda>q. inPalace c q \<and> canLand b c q)
       [(fst p + 1, snd p), (fst p - 1, snd p), (fst p, snd p + 1), (fst p, snd p - 1)]"

text \<open>Modelled from the spec: the missing generator's Advisor, one step diagonally,
  confined to the palace.\<close>

definition advisorMoves :: "BoardState \<Rightarrow> Color \<Rightarrow> int \<times> int \<Rightarrow> (int \<times> int) list" where
  "advisorMoves b c p =
     filter (\<lambda>q. inPalace c q \<and> canLand b c q)
       [(fst p + 1, snd p + 1), (fst p + 1, snd p - 1),
        (fst p - 1, snd p + 1), (fst p - 1, snd p - 1)]"

text \<open>Modelled from the spec: the missing generator's Elephant, exactly two steps
  diagonally, not over an occupied intervening point, never across the river.\<close>

definition elephantMoves :: "BoardState \<Rightarrow> Color \<Rightarrow> int \<times> int \<Rightarrow> (int \<times> int) list" where
  "elephantMoves b c p =
     map (\<lambda>d. (fst p + 2 * fst d, snd p + 2 * snd d))
       (filter (\<lambda>d. isPosValid (fst p + fst d, snd p + snd d)
                  \<and> sq b (fst p + fst d, snd p + snd d) = None
                  \<and> ownHalf c (fst p + 2 * fst d, snd p + 2 * snd d)
                  \<and> canLand b c (fst p + 2 * fst d, snd p + 2 * snd d))
          [(1, 1), (1, - 1), (- 1, 1), (- 1, - 1)])"

text \<open>Modelled from the spec: the missing generator's Horse, the L-shape, blocked when
  the adjacent orthogonal point in the direction of the long leg is occupied. Each entry
  pairs that point's offset with the move's offset.\<close>

definition horseMoves :: "BoardState \<Rightarrow> Color \<Rightarrow> int \<times> int \<Rightarrow> (int \<times> int) list" where
  "horseMoves b c p =
     map (\<lambda>(leg, d). (fst p + fst d, snd p + snd d))
       (filter (\<lambda>(leg, d). isPosValid (fst p + fst leg, snd p + snd leg)
                  \<and> sq b (fst p + fst leg, snd p + snd leg) = None
                  \<and> canLand b c (fst p + fst d, snd p + snd d))
          [((1, 0), (2, 1)), ((1, 0), (2, - 1)), ((- 1, 0), (- 2, 1)), ((- 1, 0), (- 2, - 1)),
           ((0, 1), (1, 2)), ((0, 1), (- 1, 2)), ((0, - 1), (1, - 2)), ((0, - 1), (- 1, - 2))])"

text \<open>Modelled from the spec: the squares of the board in one orthogonal direction from
  a square, nearest first, for the missing generator's rook and cannon.\<close>

definition ray :: "int \<times> int \<Rightarrow> int \<times> int \<Rightarrow> (int \<times> int) list" where
  "ray p d =
     filter isPosValid (map (\<lambda>k. (fst p + int k * fst d, snd p + int k * snd d)) [1..<10])"

text \<open>Modelled from the spec: the missing generator's Rook along one ray, any distance,
  blocked by the first occupied square, which it may capture if it holds an enemy.\<close>

fun rookScan :: "BoardState \<Rightarrow> Color \<Rightarrow> (int \<times> int) list \<Rightarrow> (int \<times> int) list" where
  "rookScan b c [] = []"
| "rookScan b c (q # qs) =
     (case sq b q of
        None \<Rightarrow> q # rookScan b c qs
      | Some t \<Rightarrow> if pcolor t \<noteq> c then [q] else [])"

text \<open>Modelled from the spec: the missing generator's Cannon beyond its screen; it
  captures the first piece after the screen if that is an enemy.\<close>

fun cannonJump :: "BoardState \<Rightarrow> Color \<Rightarrow> (int \<times> int) list \<Rightarrow> (int \<times> int) list" where
  "cannonJump b c [] = []"
| "cannonJump b c (q # qs) =
     (case sq b q of
        None \<Rightarrow> cannonJump b c qs
      | Some t \<Rightarrow> if pcolor t \<noteq> c then [q] else [])"

text \<open>Modelled from the spec: the missing generator's Cannon along one ray; it moves
  like a rook when not capturing, and the first occupied square is its screen.\<close>

fun cannonScan :: "BoardState \<Rightarrow> Color \<Rightarrow> (int \<times> int) list \<Rightarrow> (int \<times> int) list" where
  "cannonScan b c [] = []"
| "cannonScan b c (q # qs) =
     (case sq b q of
        None \<Rightarrow> q # cannonScan b c qs
      | Some t \<Rightarrow> cannonJump b c qs)"

text \<open>Modelled from the spec: the four orthogonal directions of the missing generator.\<close>

definition directions :: "(int \<times> int) list" where
  "directions = [(1, 0), (- 1, 0), (0, 1), (0, - 1)]"

text \<open>Modelled from the spec: the missing generator's Rook in all four directions.\<close>

definition rookMoves :: "BoardState \<Rightarrow> Color \<Rightarrow> int \<times> int \<Rightarrow> (int \<times> int) list" where
  "rookMoves b c p = concat (map (\<lambda>d. rookScan b c (ray p d)) directions)"

text \<open>Modelled from the spec: the missing generator's Cannon in all four directions.\<close>

definition cannonMoves :: "BoardState \<Rightarrow> Color \<Rightarrow> int \<times> int \<Rightarrow> (int \<times> int) list" where
  "cannonMoves b c p = concat (map (\<lambda>d. cannonScan b c (ray p d)) directions)"

text \<open>Modelled from the spec: the missing generator's Soldier, one step forward (toward
  the opponent) before crossing the river, and after it also one step sideways; never
  backward.\<close>

definition soldierMoves :: "BoardState \<Rightarrow> Color \<Rightarrow> int \<times> int \<Rightarrow> (int \<times> int) list" where
  "soldierMoves b c p =
     filter (canLand b c)
       ((fst p, snd p + (if c = RED then - 1 else 1))
        # (if ownHalf c p then [] else [(fst p - 1, snd p), (fst p + 1, snd p)]))"

text \<open>Modelled from the spec: the missing generator's dispatch on the piece type.\<close>

fun pieceMoves ::
  "PieceType \<Rightarrow> BoardState \<Rightarrow> Color \<Rightarrow> int \<times> int \<Rightarrow> (int \<times> int) list" where
  "pieceMoves GENERAL = generalMoves"
| "pieceMoves ADVISOR = advisorMoves"
| "pieceMoves ELEPHANT = elephantMoves"
| "pieceMoves HORSE = horseMoves"
| "pieceMoves ROOK = rookMoves"
| "pieceMoves CANNON = cannonMoves"
| "pieceMoves SOLDIER = soldierMoves"

text \<open>Modelled from the spec: the 90 squares of the 9x10 board, row by row, as the
  missing generator walks them.\<close>

definition squares :: "(int \<times> int) list" where
  "squares = concat (map (\<lambda>y. map (\<lambda>x. (int x, int y)) [0..<9]) [0..<10])"

text \<open>Modelled from the spec: a square of the missing generator as a Position.\<close>

definition toPosition :: "int \<times> int \<Rightarrow> Position" where
  "toPosition p = \<lparr>px = nat (fst p), py = nat (snd p)\<rparr>"

text \<open>Modelled from the spec: the pseudo-legal moves of a side, the moves of each of its
  pieces by the piece's rule (part of the missing generator).\<close>

definition pseudoLegalMoves :: "BoardState \<Rightarrow> Color \<Rightarrow> Move list" where
  "pseudoLegalMoves b c =
     concat (map (\<lambda>p. case sq b p of
                         None \<Rightarrow> []
                       | Some t \<Rightarrow>
                           if pcolor t = c
                           then map (\<lambda>q. \<lparr>mfrom = toPosition p, mto = toPosition q\<rparr>)
                                  (pieceMoves (ptype t) b c p)
                           else [])
               squares)"

text \<open>Modelled from the spec: \<^verbatim>\<open>isInCheck(board, side)\<close> of the missing module, true
  iff the square of the side's general is a destination in the opponent's pseudo-legal
  move set.\<close>

definition isInCheck :: "BoardState \<Rightarrow> Color \<Rightarrow> bool" where
  "isInCheck b c =
     list_ex (\<lambda>m. board_at b (mto m) = Inr (Some \<lparr>ptype = GENERAL, pcolor = c\<rparr>))
       (pseudoLegalMoves b (nextTurn c))"

text \<open>Modelled from the spec: \<^verbatim>\<open>apply(board, move)\<close> of the missing module, the piece
  at the from-square relocated to the to-square.\<close>

definition applyMove :: "BoardState \<Rightarrow> Move \<Rightarrow> BoardState" where
  "applyMove b m =
     (case board_at b (mfrom m) of
        Inr (Some p) \<Rightarrow> newBoard b m p
      | _ \<Rightarrow> b)"

text \<open>Modelled from the spec: \<^verbatim>\<open>legalMoves(board, side)\<close>, the missing
  \<^verbatim>\<open>getLegalMoves\<close>: the pseudo-legal moves after which the moving side's general is
  not attacked.\<close>

definition legalMoves :: "BoardState \<Rightarrow> Color \<Rightarrow> Move list" where
  "legalMoves b c = filter (\<lambda>m. \<not> isInCheck (applyMove b m) c) (pseudoLegalMoves b c)"

text \<open>Modelled from the spec: splitting the encoding at a separator character (the
  fields at spaces, the rows at slashes), for the missing parser.\<close>

fun splitOn :: "char \<Rightarrow> string \<Rightarrow> string list" where
  "splitOn sep [] = [[]]"
| "splitOn sep (c # cs) =
     (if c = sep then [] # splitOn sep cs
      else (case splitOn sep cs of
              [] \<Rightarrow> [[c]]
            | w # ws \<Rightarrow> (c # w) # ws))"

text \<open>Modelled from the spec: the one-to-one letters of the piece types, for the missing
  parser and serializer; the letters are the values of \<^verbatim>\<open>PieceType\<close> in types.ts.\<close>

definition pieceLetters :: "(char \<times> PieceType) list" where
  "pieceLetters =
     [(CHR ''k'', GENERAL), (CHR ''a'', ADVISOR), (CHR ''b'', ELEPHANT), (CHR ''n'', HORSE),
      (CHR ''r'', ROOK), (CHR ''c'', CANNON), (CHR ''p'', SOLDIER)]"

text \<open>Modelled from the spec: the case of a letter denotes the colour, uppercase for Red
  (missing parser and serializer).\<close>

definition upperLetters :: "(char \<times> char) list" where
  "upperLetters =
     [(CHR ''k'', CHR ''K''), (CHR ''a'', CHR ''A''), (CHR ''b'', CHR ''B''),
      (CHR ''n'', CHR ''N''), (CHR ''r'', CHR ''R''), (CHR ''c'', CHR ''C''),
      (CHR ''p'', CHR ''P'')]"

text \<open>Modelled from the spec: a run of N empty squares is encoded as the digit N (missing
  parser and serializer).\<close>

definition digits :: "(char \<times> nat) list" where
  "digits =
     [(CHR ''1'', 1), (CHR ''2'', 2), (CHR ''3'', 3), (CHR ''4'', 4), (CHR ''5'', 5),
      (CHR ''6'', 6), (CHR ''7'', 7), (CHR ''8'', 8), (CHR ''9'', 9)]"

text \<open>Modelled from the spec: the piece a letter encodes, for the missing parser.\<close>

definition pieceOfChar :: "char \<Rightarrow> Piece option" where
  "pieceOfChar ch =
     (case map_of pieceLetters ch of
        Some t \<Rightarrow> Some \<lparr>ptype = t, pcolor = BLACK\<rparr>
      | None \<Rightarrow>
          (case map_of (map (\<lambda>(l, u). (u, l)) upperLetters) ch of
             Some l \<Rightarrow> map_option (\<lambda>t. \<lparr>ptype = t, pcolor = RED\<rparr>) (map_of pieceLetters l)
           | None \<Rightarrow> None))"

text \<open>Modelled from the spec: one row record of the missing parser, columns left to
  right; an unknown letter fails with the offending token.\<close>

fun parseRow :: "string \<Rightarrow> error + Piece option list" where
  "parseRow [] = Inr []"
| "parseRow (ch # cs) =
     (case map_of digits ch of
        Some n \<Rightarrow> map_sum id (\<lambda>row. replicate n None @ row) (parseRow cs)
      | None \<Rightarrow>
          (case pieceOfChar ch of
             Some p \<Rightarrow> map_sum id (\<lambda>row. Some p # row) (parseRow cs)
           | None \<Rightarrow> Inl (ParseError [ch])))"

text \<open>Modelled from the spec: the rows of the missing parser; a row that does not have 9
  columns fails.\<close>

fun parseRows :: "string list \<Rightarrow> error + BoardState" where
  "parseRows [] = Inr []"
| "parseRows (r # rs) =
     (case parseRow r of
        Inl e \<Rightarrow> Inl e
      | Inr row \<Rightarrow>
          if length row \<noteq> 9 then Inl (ParseError r)
          else map_sum id (\<lambda>b. row # b) (parseRows rs))"

text \<open>Modelled from the spec: \<^verbatim>\<open>createFromEncoding(text)\<close>, the missing
  \<^verbatim>\<open>createBoardFromFEN\<close>: ten rows separated by slashes, then the side to move
  (\<^verbatim>\<open>w\<close> or \<^verbatim>\<open>b\<close>); the further fields are ignored; a wrong row count or an
  unknown side token fails.\<close>

definition createFromEncoding :: "string \<Rightarrow> error + BoardState \<times> Color" where
  "createFromEncoding text =
     (case splitOn CHR '' '' text of
        placement # side # rest \<Rightarrow>
          (let rows = splitOn CHR ''/'' placement
           in if length rows \<noteq> 10 then Inl (ParseError placement)
              else (case parseRows rows of
                      Inl e \<Rightarrow> Inl e
                    | Inr b \<Rightarrow>
                        if side = ''w'' then Inr (b, RED)
                        else if side = ''b'' then Inr (b, BLACK)
                        else Inl (ParseError side)))
      | _ \<Rightarrow> Inl (ParseError text))"

text \<open>Modelled from the spec: the letter of a piece, for the missing serializer.\<close>

definition charOfPiece :: "Piece \<Rightarrow> char" where
  "charOfPiece p =
     (case filter (\<lambda>(l, t). t = ptype p) pieceLetters of
        (l, t) # rest \<Rightarrow>
          if pcolor p = RED then (case map_of upperLetters l of Some u \<Rightarrow> u | None \<Rightarrow> l)
          else l
      | [] \<Rightarrow> CHR ''?'')"

text \<open>Modelled from the spec: the digit of a run of empty squares, nothing for an empty
  run (missing serializer).\<close>

definition digitOfCount :: "nat \<Rightarrow> string" where
  "digitOfCount n =
     (if n = 0 then []
      else (case filter (\<lambda>(d, k). k = n) digits of (d, k) # rest \<Rightarrow> [d] | [] \<Rightarrow> ''?''))"

text \<open>Modelled from the spec: one row record of the missing serializer; \<open>n\<close> counts the
  empty squares since the last piece.\<close>

fun formatRow :: "nat \<Rightarrow> Piece option list \<Rightarrow> string" where
  "formatRow n [] = digitOfCount n"
| "formatRow n (None # row) = formatRow (Suc n) row"
| "formatRow n (Some p # row) = digitOfCount n @ charOfPiece p # formatRow 0 row"

text \<open>Modelled from the spec: rows are separated by a slash (missing serializer).\<close>

fun joinWith :: "char \<Rightarrow> string list \<Rightarrow> string" where
  "joinWith sep [] = []"
| "joinWith sep [w] = w"
| "joinWith sep (w # ws) = w @ sep # joinWith sep ws"

text \<open>Modelled from the spec: \<^verbatim>\<open>toEncoding(board, side)\<close>, the missing
  \<^verbatim>\<open>boardToFEN\<close>: the rows, the side to move, and the placeholder fields carried for
  format compatibility, which the specification leaves open and which are taken here as
  \<^verbatim>\<open>- - 0 1\<close>.\<close>

definition toEncoding :: "BoardState \<Rightarrow> Color \<Rightarrow> string" where
  "toEncoding b c =
     joinWith CHR ''/'' (map (formatRow 0) b) @ '' ''
       @ (if c = RED then ''w'' else ''b'') @ '' - - 0 1''"

section \<open>Example positions\<close>

text \<open>The state of the component at the start of a turn: nothing selected, no last move.\<close>

definition freshState :: "'b \<Rightarrow> Color \<Rightarrow> 'b AppState" where
  "freshState b t =
     \<lparr>board = b, turn = t, selectedPos = None, validDestinations = [],
      gameStatus = PLAYING, lastMove = None, difficulty = MEDIUM,
      isAiThinking = False, aiError = None\<rparr>"

abbreviation (input) ee :: "Piece option" where
  "ee \<equiv> None"

abbreviation (input) Red :: "PieceType \<Rightarrow> Piece option" where
  "Red t \<equiv> Some \<lparr>ptype = t, pcolor = RED\<rparr>"

abbreviation (input) Black :: "PieceType \<Rightarrow> Piece option" where
  "Black t \<equiv> Some \<lparr>ptype = t, pcolor = BLACK\<rparr>"

text \<open>The standard starting position, row 0 (Black's back rank) first.\<close>

definition initialBoard :: BoardState where
  "initialBoard =
    [[Black ROOK, Black HORSE, Black ELEPHANT, Black ADVISOR, Black GENERAL,
      Black ADVISOR, Black ELEPHANT, Black HORSE, Black ROOK],
     [ee, ee, ee, ee, ee, ee, ee, ee, ee],
     [ee, Black CANNON, ee, ee, ee, ee, ee, Black CANNON, ee],
     [Black SOLDIER, ee, Black SOLDIER, ee, Black SOLDIER, ee, Black SOLDIER, ee,
      Black SOLDIER],
     [ee, ee, ee, ee, ee, ee, ee, ee, ee],
     [ee, ee, ee, ee, ee, ee, ee, ee, ee],
     [Red SOLDIER, ee, Red SOLDIER, ee, Red SOLDIER, ee, Red SOLDIER, ee, Red SOLDIER],
     [ee, Red CANNON, ee, ee, ee, ee, ee, Red CANNON, ee],
     [ee, ee, ee, ee, ee, ee, ee, ee, ee],
     [Red ROOK, Red HORSE, Red ELEPHANT, Red ADVISOR, Red GENERAL,
      Red ADVISOR, Red ELEPHANT, Red HORSE, Red ROOK]]"

text \<open>The specification's opening move: the Red cannon from (1,7) to (4,7).\<close>

definition cannonMove :: Move where
  "cannonMove = \<lparr>mfrom = \<lparr>px = 1, py = 7\<rparr>, mto = \<lparr>px = 4, py = 7\<rparr>\<rparr>"

text \<open>A move of the same cannon onto its own square.\<close>

definition sameSquareMove :: Move where
  "sameSquareMove = \<lparr>mfrom = \<lparr>px = 1, py = 7\<rparr>, mto = \<lparr>px = 1, py = 7\<rparr>\<rparr>"

text \<open>A move from the empty square (4,4).\<close>

definition emptyFromMove :: Move where
  "emptyFromMove = \<lparr>mfrom = \<lparr>px = 4, py = 4\<rparr>, mto = \<lparr>px = 4, py = 3\<rparr>\<rparr>"

text \<open>
  Red to move with the Black general open to the Red rook on file 4, as after a Black
  move that left its general attacked.
\<close>

definition captureBoard :: BoardState where
  "captureBoard =
    [[ee, ee, ee, ee, Black GENERAL, ee, ee, ee, ee],
     [ee, ee, ee, ee, ee, ee, ee, ee, ee],
     [ee, ee, ee, ee, ee, ee, ee, ee, ee],
     [ee, ee, ee, ee, ee, ee, ee, ee, ee],
     [ee, ee, ee, ee, ee, ee, ee, ee, ee],
     [ee, ee, ee, ee, Red ROOK, ee, ee, ee, ee],
     [ee, ee, ee, ee, ee, ee, ee, ee, ee],
     [ee, ee, ee, ee, ee, ee, ee, ee, ee],
     [ee, ee, ee, ee, ee, ee, ee, ee, ee],
     [ee, ee, ee, Red GENERAL, ee, ee, ee, ee, ee]]"

definition captureMove :: Move where
  "captureMove = \<lparr>mfrom = \<lparr>px = 4, py = 5\<rparr>, mto = \<lparr>px = 4, py = 0\<rparr>\<rparr>"

text \<open>
  Red to move. After the rook goes from (5,9) to (5,5) the Black general on (4,0) is not
  attacked, and each of its three steps, (3,0), (5,0) and (4,1), is: by the rook on file
  3, the rook on file 5 and the soldier on (4,2).
\<close>

definition stalemateBoard :: BoardState where
  "stalemateBoard =
    [[ee, ee, ee, ee, Black GENERAL, ee, ee, ee, ee],
     [ee, ee, ee, ee, ee, ee, ee, ee, ee],
     [ee, ee, ee, ee, Red SOLDIER, ee, ee, ee, ee],
     [ee, ee, ee, ee, ee, ee, ee, ee, ee],
     [ee, ee, ee, ee, ee, ee, ee, ee, ee],
     [ee, ee, ee, Red ROOK, ee, ee, ee, ee, ee],
     [ee, ee, ee, ee, ee, ee, ee, ee, ee],
     [ee, ee, ee, ee, ee, ee, ee, ee, ee],
     [ee, ee, ee, ee, ee, ee, ee, ee, ee],
     [ee, ee, ee, ee, Red GENERAL, Red ROOK, ee, ee, ee]]"

definition stalemateMove :: Move where
  "stalemateMove = \<lparr>mfrom = \<lparr>px = 5, py = 9\<rparr>, mto = \<lparr>px = 5, py = 5\<rparr>\<rparr>"

text \<open>The position after that move, Black to move.\<close>

definition stalematedBoard :: BoardState where
  "stalematedBoard =
    [[ee, ee, ee, ee, Black GENERAL, ee, ee, ee, ee],
     [ee, ee, ee, ee, ee, ee, ee, ee, ee],
     [ee, ee, ee, ee, Red SOLDIER, ee, ee, ee, ee],
     [ee, ee, ee, ee, ee, ee, ee, ee, ee],
     [ee, ee, ee, ee, ee, ee, ee, ee, ee],
     [ee, ee, ee, Red ROOK, ee, Red ROOK, ee, ee, ee],
     [ee, ee, ee, ee, ee, ee, ee, ee, ee],
     [ee, ee, ee, ee, ee, ee, ee, ee, ee],
     [ee, ee, ee, ee, ee, ee, ee, ee, ee],
     [ee, ee, ee, ee, Red GENERAL, ee, ee, ee, ee]]"

text \<open>Black (the AI) to move, with a general and a rook against general, soldier and rook.\<close>

definition aiBoard :: BoardState where
  "aiBoard =
    [[Black ROOK, ee, ee, ee, Black GENERAL, ee, ee, ee, ee],
     [ee, ee, ee, ee, ee, ee, ee, ee, ee],
     [ee, ee, ee, ee, ee, ee, ee, ee, ee],
     [ee, ee, ee, ee, ee, ee, ee, ee, ee],
     [ee, ee, ee, ee, ee, ee, ee, ee, ee],
     [ee, ee, ee, ee, ee, ee, ee, ee, ee],
     [ee, ee, ee, ee, Red SOLDIER, ee, ee, ee, ee],
     [ee, ee, ee, ee, ee, ee, ee, ee, ee],
     [ee, ee, ee, ee, ee, ee, ee, ee, ee],
     [ee, ee, ee, ee, Red GENERAL, ee, ee, ee, Red ROOK]]"

text \<open>The Black rook from (0,0) onto the Red rook on (8,9): no rook move.\<close>

definition illegalMove :: Move where
  "illegalMove = \<lparr>mfrom = \<lparr>px = 0, py = 0\<rparr>, mto = \<lparr>px = 8, py = 9\<rparr>\<rparr>"

text \<open>A service that answers with that move, one that fails, and one that has no
  answer.\<close>

definition suggestIllegal :: "string \<Rightarrow> Difficulty \<Rightarrow> Move list \<Rightarrow> Color \<Rightarrow> BestMove" where
  "suggestIllegal fen d legal c = Resolves (Some illegalMove)"

definition serviceDown :: "string \<Rightarrow> Difficulty \<Rightarrow> Move list \<Rightarrow> Color \<Rightarrow> BestMove" where
  "serviceDown fen d legal c = Rejects"

text \<open>The store that holds a board's rows at addresses 0, 1, ... and the board itself
  right after them.\<close>

definition storeOf :: "BoardState \<Rightarrow> store" where
  "storeOf b = map RowArr b @ [BoardArr [0..<length b]]"

section \<open>Reading and writing squares\<close>

lemma Position_eq_iff: "(p = (q::Position)) = (px p = px q \<and> py p = py q)"
  by (cases p, cases q) simp

lemma js_set_read:
  "(if j < length (js_set row i v) then js_set row i v ! j else None)
     = (if j = i then v else if j < length row then row ! j else None)"
  by (auto simp: js_set_def nth_append)

lemma js_set_twice: "js_set (js_set row i t) i v = js_set row i v"
  by (auto simp: js_set_def list_update_append)

lemma length_board_set [simp]: "length (board_set b p v) = length b"
  by (simp add: board_set_def)

lemma board_at_board_set:
  assumes "py p < length b"
  shows "board_at (board_set b p v) q = (if q = p then Inr v else board_at b q)"
  using assms js_set_read [of "px q" "b ! py p" "px p" v]
  by (auto simp: board_at_def board_set_def Position_eq_iff nth_list_update)

lemma board_set_twice:
  "py p < length b \<Longrightarrow> board_set (board_set b p t) p v = board_set b p v"
  by (simp add: board_set_def js_set_twice)

lemma board_at_newBoard:
  assumes "py (mfrom m) < length b" "py (mto m) < length b"
  shows "board_at (newBoard b m p) q =
    (if q = mfrom m then Inr None else if q = mto m then Inr (Some p) else board_at b q)"
  using assms by (simp add: newBoard_def board_at_board_set)

lemma board_at_in_range: "board_at b p = Inr v \<Longrightarrow> py p < length b"
  by (auto simp: board_at_def split: if_splits)

section \<open>An applied move\<close>

text \<open>
  A move is applied when its from-square holds a piece and the row of its to-square
  exists: \<open>executeMove\<close> then installs the new board and records the move, and either
  passes the turn or ends the game.
\<close>

lemma executeMove_applies:
  assumes "board_at (board s) (mfrom m) = Inr (Some p)" and "py (mto m) < length (board s)"
  shows "\<exists>s'. executeMove glm s m = Inr s' \<and> board s' = newBoard (board s) m p
     \<and> lastMove s' = Some m
     \<and> (turn s' = nextTurn (turn s) \<or> gameStatus s' = CHECKMATE)
     \<and> isAiThinking s' = isAiThinking s \<and> aiError s' = aiError s"
proof -
  obtain tp where "board_at (board s) (mto m) = Inr tp"
    using assms(2) by (simp add: board_at_def)
  then show ?thesis using assms(1) by (simp add: executeMove_def Let_def)
qed

text \<open>Unless a General is captured, the turn passes to the other colour.\<close>

lemma executeMove_alternates:
  assumes "board_at (board s) (mfrom m) = Inr (Some p)"
    and "board_at (board s) (mto m) = Inr t" and "map_option ptype t \<noteq> Some GENERAL"
  shows "\<exists>s'. executeMove glm s m = Inr s' \<and> turn s' = nextTurn (turn s)
     \<and> turn s' \<noteq> turn s"
  using assms by (auto simp: executeMove_def Let_def nextTurn_def)

section \<open>The random fallback\<close>


text \<open>
  Index \<open>i\<close> is drawn exactly when \<open>u\<close> falls into the \<open>i\<close>-th of \<open>n\<close> intervals of
  length \<open>1/n\<close>: the choice is as uniform as \<^verbatim>\<open>Math.random()\<close> is.
\<close>

lemma randomIndex_interval:
  assumes "0 \<le> u" "0 < n"
  shows "(randomIndex u n = i) = (real i / real n \<le> u \<and> u < (real i + 1) / real n)"
proof -
  have nn: "0 \<le> u * real n" using assms by simp
  have "(randomIndex u n = i) = (\<lfloor>u * real n\<rfloor> = int i)"
    using nn by (auto simp: randomIndex_def)
  also have "\<dots> = (real i \<le> u * real n \<and> u * real n < real i + 1)"
    by (auto simp: floor_eq_iff)
  also have "\<dots> = (real i / real n \<le> u \<and> u < (real i + 1) / real n)"
    using assms(2) by (simp add: pos_divide_le_eq pos_less_divide_eq)
  finally show ?thesis .
qed


text \<open>A move the service resolves to is executed as it is.\<close>

lemma makeAiMove_resolved:
  assumes "gbm (b2f (board s) (turn s)) (difficulty s) (glm (board s) (turn s)) RED
             = Resolves (Some m)"
    and "glm (board s) (turn s) \<noteq> []"
    and "executeMove glm (s\<lparr>isAiThinking := True, aiError := None\<rparr>) m = Inr s'"
  shows "makeAiMove glm b2f gbm u1 u2 s = (s'\<lparr>isAiThinking := False\<rparr>, None)"
  using assms by (simp add: makeAiMove_def Let_def)

section \<open>The store model\<close>

lemma store_at_abs: "store_at h a p = board_at (absBoard h a) p"
  by (simp add: store_at_def board_at_def absBoard_def Let_def)

lemma length_absBoard [simp]: "length (absBoard h a) = length (rowsOf h a)"
  by (simp add: absBoard_def)

lemma cellsOf_append: "r < length h \<Longrightarrow> cellsOf (h @ xs) r = cellsOf h r"
  by (simp add: cellsOf_def js_nth_def nth_append)

lemma copyRows_closed:
  "\<forall>r\<in>set rs. r < length h \<Longrightarrow>
   copyRows h rs = (h @ map (\<lambda>r. RowArr (cellsOf h r)) rs, [length h..<length h + length rs])"
proof (induction rs arbitrary: h)
  case Nil
  then show ?case by simp
next
  case (Cons r rs)
  let ?h1 = "h @ [RowArr (cellsOf h r)]"
  have 1: "\<forall>x\<in>set rs. x < length ?h1" using Cons.prems by auto
  have 2: "map (\<lambda>x. RowArr (cellsOf ?h1 x)) rs = map (\<lambda>x. RowArr (cellsOf h x)) rs"
    using Cons.prems by (simp add: cellsOf_append)
  have 3: "[length h..<length h + length (r # rs)]
             = length h # [length ?h1..<length ?h1 + length rs]"
    by (simp add: upt_conv_Cons del: upt_Suc)
  have 4: "copyRows h (r # rs)
             = (fst (copyRows ?h1 rs), length h # snd (copyRows ?h1 rs))"
    by (simp add: alloc_def split: prod.splits)
  show ?case
    unfolding 4 3 Cons.IH [OF 1] 2 by simp
qed

lemma wf_board_iff:
  "wf_board h a =
     (a < length h \<and> (\<exists>rs. h ! a = BoardArr rs \<and>
        (\<forall>r\<in>set rs. r < length h \<and> (\<exists>cs. h ! r = RowArr cs))))"
proof -
  have row: "(case js_nth h r of Some (RowArr cs) \<Rightarrow> True | _ \<Rightarrow> False)
               = (r < length h \<and> (\<exists>cs. h ! r = RowArr cs))" for r
    by (cases "h ! r") (simp_all add: js_nth_def)
  show ?thesis
    unfolding wf_board_def row
    by (cases "h ! a") (simp_all add: js_nth_def list_all_iff)
qed

lemma wf_board_rows:
  assumes "wf_board h a"
  shows "a < length h" "h ! a = BoardArr (rowsOf h a)"
    "\<forall>r\<in>set (rowsOf h a). r < length h \<and> h ! r = RowArr (cellsOf h r)"
  using assms
  by (auto simp: wf_board_def rowsOf_def cellsOf_def js_nth_def list_all_iff
           split: if_splits option.splits obj.splits)

lemma copyBoard_closed:
  assumes "wf_board h a"
  shows "copyBoard h a =
    (h @ map (\<lambda>r. RowArr (cellsOf h r)) (rowsOf h a)
       @ [BoardArr [length h..<length h + length (rowsOf h a)]],
     length h + length (rowsOf h a))"
  using wf_board_rows(3) [OF assms]
  by (simp add: copyBoard_def copyRows_closed alloc_def)

lemma copyBoard_abs:
  assumes "wf_board h a" and "copyBoard h a = (h1, nb)"
  shows "absBoard h1 nb = absBoard h a"
    and "rowsOf h1 nb = [length h..<length h + length (rowsOf h a)]"
    and "nb = length h + length (rowsOf h a)"
    and "length h1 = Suc nb"
    and "take (length h) h1 = h"
proof -
  let ?n = "length h" and ?rs = "rowsOf h a"
  let ?R = "map (\<lambda>r. RowArr (cellsOf h r)) ?rs"
  have eq: "h1 = h @ ?R @ [BoardArr [?n..<?n + length ?rs]]" "nb = ?n + length ?rs"
    using assms copyBoard_closed [OF assms(1)] by auto
  show "nb = ?n + length ?rs" by (rule eq(2))
  show "length h1 = Suc nb" by (simp add: eq)
  show "take (length h) h1 = h" by (simp add: eq)
  show r: "rowsOf h1 nb = [?n..<?n + length ?rs]"
    by (simp add: eq rowsOf_def js_nth_def nth_append)
  have "cellsOf h1 (?n + i) = cellsOf h (?rs ! i)" if "i < length ?rs" for i
    using that by (simp add: eq cellsOf_def js_nth_def nth_append)
  then show "absBoard h1 nb = absBoard h a"
    unfolding absBoard_def r by (intro nth_equalityI) auto
qed

lemma copyBoard_wf:
  assumes "wf_board h a" and "copyBoard h a = (h1, nb)"
  shows "wf_board h1 nb"
proof -
  let ?n = "length h" and ?rs = "rowsOf h a"
  have eq: "h1 = h @ map (\<lambda>r. RowArr (cellsOf h r)) ?rs @ [BoardArr [?n..<?n + length ?rs]]"
      "nb = ?n + length ?rs"
    using assms copyBoard_closed [OF assms(1)] by auto
  show ?thesis
    unfolding wf_board_iff eq by (auto simp: nth_append)
qed

text \<open>A write to a square of a board whose rows are distinct arrays, none the board
  array itself.\<close>

lemma store_set_props:
  assumes rs: "rowsOf h a = rs" and d: "distinct rs" and a: "a \<notin> set rs" "a < length h"
    and r: "\<forall>r\<in>set rs. r < length h" and p: "py p < length rs"
  shows "absBoard (store_set h a p v) a = board_set (absBoard h a) p v"
    and "rowsOf (store_set h a p v) a = rs"
    and "length (store_set h a p v) = length h"
    and "\<forall>x. x \<notin> set rs \<longrightarrow> store_set h a p v ! x = h ! x"
proof -
  let ?r = "rs ! py p"
  let ?h' = "h[?r := RowArr (js_set (cellsOf h ?r) (px p) v)]"
  have h': "store_set h a p v = ?h'" by (simp add: store_set_def rs Let_def)
  have rin: "?r \<in> set rs" "?r < length h" using p r by auto
  have ne: "?r \<noteq> a" using rin a by auto
  show 2: "rowsOf (store_set h a p v) a = rs"
    using ne a rs by (simp add: h' rowsOf_def js_nth_def)
  show "length (store_set h a p v) = length h" by (simp add: h')
  show "\<forall>x. x \<notin> set rs \<longrightarrow> store_set h a p v ! x = h ! x"
    using rin by (metis h' nth_list_update_neq)
  have c: "cellsOf ?h' (rs ! i) = (if i = py p then js_set (cellsOf h ?r) (px p) v
                                   else cellsOf h (rs ! i))" if "i < length rs" for i
    using that d p r rin by (auto simp: cellsOf_def js_nth_def nth_eq_iff_index_eq)
  show "absBoard (store_set h a p v) a = board_set (absBoard h a) p v"
    unfolding absBoard_def 2 unfolding h' rs board_set_def
    using p by (intro nth_equalityI) (auto simp: c nth_list_update)
qed

lemma store_set_wf:
  assumes wf: "wf_board h a" and rs: "rowsOf h a = rs" and a: "a \<notin> set rs"
    and p: "py p < length rs"
  shows "wf_board (store_set h a p v) a"
proof -
  let ?r = "rs ! py p"
  have h': "store_set h a p v = h[?r := RowArr (js_set (cellsOf h ?r) (px p) v)]"
    by (simp add: store_set_def rs Let_def)
  have rin: "?r \<in> set rs" using p by simp
  then have ne: "?r \<noteq> a" using a by auto
  note w = wf_board_rows [OF wf]
  have "\<exists>cs. h[?r := RowArr (js_set (cellsOf h ?r) (px p) v)] ! r = RowArr cs"
    if "r \<in> set rs" for r
    using that w(3) rs by (cases "r = ?r") auto
  then show ?thesis
    unfolding wf_board_iff h' using w ne rs by auto
qed

lemma old_objects_kept:
  assumes "take (length h) h' = h" and "x < length h"
  shows "js_nth h' x = js_nth h x"
proof -
  have "length h \<le> length h'" using assms(1) by (metis length_take min.cobounded1)
  moreover have "h' ! x = h ! x" using assms by (metis nth_take)
  ultimately show ?thesis using assms(2) by (simp add: js_nth_def)
qed

lemma old_board_kept:
  assumes wf: "wf_board h a" and t: "take (length h) h' = h"
  shows "absBoard h' a = absBoard h a"
proof -
  note w = wf_board_rows [OF wf]
  have a: "js_nth h' a = js_nth h a" using t w(1) by (rule old_objects_kept)
  have r: "js_nth h' r = js_nth h r" if "r \<in> set (rowsOf h a)" for r
    using t w(3) that by (simp add: old_objects_kept)
  have rows: "rowsOf h' a = rowsOf h a" by (simp add: rowsOf_def a)
  show "absBoard h' a = absBoard h a"
    unfolding absBoard_def rows using r by (simp add: cellsOf_def)
qed

text \<open>Lines 83 to 85 on the store: the copy is written, the store it was copied from is
  a prefix of the result.\<close>

lemma moved_on_copy:
  assumes wf: "wf_board h a" and cp: "copyBoard h a = (h1, nb)"
    and f: "py (mfrom m) < length (rowsOf h a)" and t: "py (mto m) < length (rowsOf h a)"
    and h3_def: "h3 = store_set (store_set h1 nb (mto m) (Some mp)) nb (mfrom m) None"
  shows "absBoard h3 nb = newBoard (absBoard h a) m mp"
    and "take (length h) h3 = h"
    and "wf_board h3 nb"
    and "length h \<le> nb"
proof -
  let ?n = "length h" and ?k = "length (rowsOf h a)"
  let ?rs = "[?n..<?n + ?k]"
  let ?h2 = "store_set h1 nb (mto m) (Some mp)"
  note c = copyBoard_abs [OF wf cp]
  have g: "distinct ?rs" "nb \<notin> set ?rs" "nb < length h1" "\<forall>r\<in>set ?rs. r < length h1"
    using c(3,4) by auto
  have t': "py (mto m) < length ?rs" and f': "py (mfrom m) < length ?rs" using t f by auto
  note s2 = store_set_props [OF c(2) g t', of "Some mp"]
  have g2: "nb < length ?h2" "\<forall>r\<in>set ?rs. r < length ?h2" using g s2(3) by auto
  note s3 = store_set_props [OF s2(2) g(1,2) g2 f', of None]
  show "absBoard h3 nb = newBoard (absBoard h a) m mp"
    unfolding h3_def s3(1) s2(1) c(1) newBoard_def ..
  show "length h \<le> nb" using c(3) by simp
  have "h3 ! x = h ! x" if "x < ?n" for x
  proof -
    have "x \<notin> set ?rs" using that by simp
    then have "h3 ! x = h1 ! x" using s3(4) s2(4) by (simp add: h3_def)
    also have "h1 ! x = h ! x" using c(5) that by (metis nth_take)
    finally show ?thesis .
  qed
  moreover have len: "length h3 = Suc nb" using s3(3) s2(3) c(4) by (simp add: h3_def)
  ultimately show "take (length h) h3 = h"
    using c(3) by (intro nth_equalityI) auto
  have "wf_board ?h2 nb"
    using copyBoard_wf [OF wf cp] c(2) g(2) t' by (rule store_set_wf)
  then show "wf_board h3 nb"
    unfolding h3_def using s2(2) g(2) f' by (rule store_set_wf)
qed

text \<open>The functional \<open>executeMove\<close> is what the store version computes, seen through
  \<open>absState\<close>.\<close>

lemma executeMoveS_refines:
  assumes wf: "wf_board h (board s)"
  shows "map_sum id (\<lambda>hs. absState (fst hs) (snd hs)) (executeMoveS glm (h, s) move)
           = executeMove glm (absState h s) move"
proof (cases "store_at h (board s) (mfrom move)")
  case (Inl e)
  then show ?thesis
    by (simp add: executeMoveS_def executeMove_def store_at_abs absState_def)
next
  case (Inr fp)
  note fr = this
  show ?thesis
  proof (cases fp)
    case None
    then show ?thesis using fr
      by (simp add: executeMoveS_def executeMove_def store_at_abs absState_def)
  next
    case (Some mp)
    show ?thesis
    proof (cases "store_at h (board s) (mto move)")
      case (Inl e)
      then show ?thesis using fr Some
        by (simp add: executeMoveS_def executeMove_def store_at_abs absState_def)
    next
      case (Inr tp)
      obtain h1 nb where cp: "copyBoard h (board s) = (h1, nb)"
        by (cases "copyBoard h (board s)")
      have f: "py (mfrom move) < length (rowsOf h (board s))"
        using fr board_at_in_range by (fastforce simp: store_at_abs)
      have t: "py (mto move) < length (rowsOf h (board s))"
        using Inr board_at_in_range by (fastforce simp: store_at_abs)
      note m = moved_on_copy [where mp = mp, OF wf cp f t refl]
      show ?thesis
        using fr Some Inr cp m(1)
        by (auto simp add: executeMoveS_def executeMove_def store_at_abs [symmetric]
              absState_def Let_def)
    qed
  qed
qed

section \<open>The example positions, evaluated\<close>

lemma freshState_sel:
  "board (freshState b t) = b" "turn (freshState b t) = t"
  "difficulty (freshState b t) = MEDIUM" "gameStatus (freshState b t) = PLAYING"
  "isAiThinking (freshState b t) = False"
  by (simp_all add: freshState_def)

lemma aiBoard_legalMoves:
  "legalMoves aiBoard BLACK =
     [\<lparr>mfrom = \<lparr>px = 0, py = 0\<rparr>, mto = \<lparr>px = 1, py = 0\<rparr>\<rparr>,
      \<lparr>mfrom = \<lparr>px = 0, py = 0\<rparr>, mto = \<lparr>px = 2, py = 0\<rparr>\<rparr>,
      \<lparr>mfrom = \<lparr>px = 0, py = 0\<rparr>, mto = \<lparr>px = 3, py = 0\<rparr>\<rparr>,
      \<lparr>mfrom = \<lparr>px = 0, py = 0\<rparr>, mto = \<lparr>px = 0, py = 1\<rparr>\<rparr>,
      \<lparr>mfrom = \<lparr>px = 0, py = 0\<rparr>, mto = \<lparr>px = 0, py = 2\<rparr>\<rparr>,
      \<lparr>mfrom = \<lparr>px = 0, py = 0\<rparr>, mto = \<lparr>px = 0, py = 3\<rparr>\<rparr>,
      \<lparr>mfrom = \<lparr>px = 0, py = 0\<rparr>, mto = \<lparr>px = 0, py = 4\<rparr>\<rparr>,
      \<lparr>mfrom = \<lparr>px = 0, py = 0\<rparr>, mto = \<lparr>px = 0, py = 5\<rparr>\<rparr>,
      \<lparr>mfrom = \<lparr>px = 0, py = 0\<rparr>, mto = \<lparr>px = 0, py = 6\<rparr>\<rparr>,
      \<lparr>mfrom = \<lparr>px = 0, py = 0\<rparr>, mto = \<lparr>px = 0, py = 7\<rparr>\<rparr>,
      \<lparr>mfrom = \<lparr>px = 0, py = 0\<rparr>, mto = \<lparr>px = 0, py = 8\<rparr>\<rparr>,
      \<lparr>mfrom = \<lparr>px = 0, py = 0\<rparr>, mto = \<lparr>px = 0, py = 9\<rparr>\<rparr>,
      \<lparr>mfrom = \<lparr>px = 4, py = 0\<rparr>, mto = \<lparr>px = 5, py = 0\<rparr>\<rparr>,
      \<lparr>mfrom = \<lparr>px = 4, py = 0\<rparr>, mto = \<lparr>px = 3, py = 0\<rparr>\<rparr>,
      \<lparr>mfrom = \<lparr>px = 4, py = 0\<rparr>, mto = \<lparr>px = 4, py = 1\<rparr>\<rparr>]"
  by code_simp

lemma stalematedBoard_legalMoves: "legalMoves stalematedBoard BLACK = []"
  by code_simp

lemma stalemateMove_newBoard:
  "newBoard stalemateBoard stalemateMove \<lparr>ptype = ROOK, pcolor = RED\<rparr> = stalematedBoard"
  by code_simp

section \<open>Claims\<close>

text \<open>
  C1, amended. For every board and every move whose from-square holds a piece, whose
  to-square lies in a row of the board and differs from the from-square: after
  \<open>executeMove\<close> the moving piece stands on the to-square, the from-square is empty,
  and the state keeps the move's two squares only; the new board is the same whatever
  stood on the to-square before.
\<close>

theorem executeMove_relocates:
  assumes "board_at (board s) (mfrom move) = Inr (Some p)"
    and "py (mto move) < length (board s)"
    and "mfrom move \<noteq> mto move"
  shows "\<exists>s'. executeMove glm s move = Inr s'
     \<and> board_at (board s') (mto move) = Inr (Some p)
     \<and> board_at (board s') (mfrom move) = Inr None
     \<and> lastMove s' = Some move
     \<and> (\<forall>t. \<exists>s''. executeMove glm (s\<lparr>board := board_set (board s) (mto move) t\<rparr>) move
                      = Inr s''
            \<and> board s'' = board s')"
proof -
  have fy: "py (mfrom move) < length (board s)" using assms(1) by (rule board_at_in_range)
  let ?nb = "newBoard (board s) move p"
  from executeMove_applies [OF assms(1,2), of glm]
  obtain s' where s': "executeMove glm s move = Inr s'" "board s' = ?nb"
    "lastMove s' = Some move" by blast
  have B: "board_at ?nb (mto move) = Inr (Some p)" "board_at ?nb (mfrom move) = Inr None"
    using fy assms(2,3) by (simp_all add: board_at_newBoard)
  have C: "\<exists>s''. executeMove glm (s\<lparr>board := board_set (board s) (mto move) t\<rparr>) move
                    = Inr s'' \<and> board s'' = ?nb" for t
  proof -
    let ?s = "s\<lparr>board := board_set (board s) (mto move) t\<rparr>"
    have 1: "board_at (board ?s) (mfrom move) = Inr (Some p)"
      using assms by (simp add: board_at_board_set)
    have 2: "py (mto move) < length (board ?s)"
      using assms(2) by simp
    have 3: "newBoard (board ?s) move p = ?nb"
      using assms(2) by (simp add: newBoard_def board_set_twice)
    from executeMove_applies [OF 1 2, of glm] 3 show ?thesis by auto
  qed
  show ?thesis using s' B C by auto
qed

theorem executeMove_relocates_witness:
  "board_at initialBoard (mfrom cannonMove) = Inr (Some \<lparr>ptype = CANNON, pcolor = RED\<rparr>)
   \<and> py (mto cannonMove) < length initialBoard
   \<and> mfrom cannonMove \<noteq> mto cannonMove
   \<and> (\<exists>s'. executeMove legalMoves (freshState initialBoard RED) cannonMove = Inr s'
     \<and> board_at (board s') (mto cannonMove) = Inr (Some \<lparr>ptype = CANNON, pcolor = RED\<rparr>)
     \<and> board_at (board s') (mfrom cannonMove) = Inr None
     \<and> lastMove s' = Some cannonMove
     \<and> (\<forall>t. \<exists>s''. executeMove legalMoves
                      ((freshState initialBoard RED)
                         \<lparr>board := board_set initialBoard (mto cannonMove) t\<rparr>) cannonMove
                      = Inr s''
            \<and> board s'' = board s'))"
proof -
  have 1: "board_at initialBoard (mfrom cannonMove)
             = Inr (Some \<lparr>ptype = CANNON, pcolor = RED\<rparr>)"
    by code_simp
  have 2: "py (mto cannonMove) < length initialBoard"
    by code_simp
  have 3: "mfrom cannonMove \<noteq> mto cannonMove"
    by code_simp
  note a = executeMove_relocates
    [where s = "freshState initialBoard RED" and glm = legalMoves,
     unfolded freshState_sel, OF 1 2 3]
  show ?thesis
    using a 1 2 3 by blast
qed

text \<open>
  C1 as stated fails for a move onto its own square: line 84 writes the piece, line 85
  clears the same square, and the piece is gone from the board.
\<close>

theorem executeMove_same_square_counterexample:
  "board_at initialBoard (mfrom sameSquareMove)
     = Inr (Some \<lparr>ptype = CANNON, pcolor = RED\<rparr>)
   \<and> (\<forall>glm. \<exists>s'. executeMove glm (freshState initialBoard RED) sameSquareMove = Inr s'
         \<and> board_at (board s') (mto sameSquareMove) = Inr None)"
proof -
  have 1: "board_at initialBoard (mfrom sameSquareMove)
             = Inr (Some \<lparr>ptype = CANNON, pcolor = RED\<rparr>)"
    by code_simp
  have 2: "py (mto sameSquareMove) < length initialBoard"
    by code_simp
  have 3: "board_at (newBoard initialBoard sameSquareMove \<lparr>ptype = CANNON, pcolor = RED\<rparr>)
             (mto sameSquareMove) = Inr None"
    by code_simp
  have "\<exists>s'. executeMove glm (freshState initialBoard RED) sameSquareMove = Inr s'
         \<and> board_at (board s') (mto sameSquareMove) = Inr None" for glm
    using executeMove_applies
      [where s = "freshState initialBoard RED" and glm = glm, unfolded freshState_sel, OF 1 2]
      3
    by auto
  then show ?thesis using 1 by blast
qed

text \<open>
  C2. The claim, that the side to move after every applied move is the other colour,
  fails where the move captures a General: line 99 returns before line 103 sets the turn.
  Red's rook takes the Black general, Red stays the side to move, and the status text,
  which names the side to move as the loser of a CHECKMATE, tells Red it lost.
\<close>

theorem executeMove_general_capture_keeps_turn:
  "map_sum id turn (executeMove glm (freshState captureBoard RED) captureMove) = Inr RED
   \<and> map_sum id gameStatus (executeMove glm (freshState captureBoard RED) captureMove)
       = Inr CHECKMATE
   \<and> map_sum id getStatusText (executeMove glm (freshState captureBoard RED) captureMove)
       = Inr ''You Lost!''"
proof -
  have 1: "board_at captureBoard (mfrom captureMove)
             = Inr (Some \<lparr>ptype = ROOK, pcolor = RED\<rparr>)"
    by code_simp
  have 2: "board_at captureBoard (mto captureMove)
             = Inr (Some \<lparr>ptype = GENERAL, pcolor = BLACK\<rparr>)"
    by code_simp
  show ?thesis
    using 1 2
    by (simp add: executeMove_def Let_def getStatusText_def freshState_sel)
qed

text \<open>
  C3, amended. When the side to move has no legal move the status becomes CHECKMATE,
  after \<open>executeMove\<close> (for the side that is then to move) and in \<open>makeAiMove\<close>
  alike, whether or not that side is in check: no check detection is consulted and
  neither function ever sets STALEMATE.
\<close>

theorem no_legal_moves_is_checkmate:
  "(board_at (board s) (mfrom move) = Inr (Some p) \<and> board_at (board s) (mto move) = Inr t
      \<and> map_option ptype t \<noteq> Some GENERAL
      \<and> glm (newBoard (board s) move p) (nextTurn (turn s)) = []
    \<longrightarrow> (\<exists>s'. executeMove glm s move = Inr s' \<and> turn s' = nextTurn (turn s)
           \<and> gameStatus s' = CHECKMATE))
   \<and> (glm (board sa) (turn sa) = []
    \<longrightarrow> gameStatus (fst (makeAiMove glm b2f gbm u1 u2 sa)) = CHECKMATE)
   \<and> (gameStatus s \<noteq> STALEMATE
    \<longrightarrow> (\<forall>s'. executeMove glm s move = Inr s' \<longrightarrow> gameStatus s' \<noteq> STALEMATE)
      \<and> gameStatus (fst (makeAiMove glm b2f gbm u1 u2 s)) \<noteq> STALEMATE)"
proof -
  have ex: "gameStatus s' \<noteq> STALEMATE"
    if "gameStatus s0 \<noteq> STALEMATE" "executeMove glm s0 m = Inr s'" for s0 s' m
    using that
    by (auto simp: executeMove_def Let_def split: sum.splits option.splits if_splits)
  have rnd: "gameStatus s' \<noteq> STALEMATE"
    if "gameStatus s0 \<noteq> STALEMATE" "executeRandom glm s0 L u = Inr s'" for s0 s' L u
    using that ex by (auto simp: executeRandom_def split: option.splits)
  have ai: "gameStatus (fst (makeAiMove glm b2f gbm u1 u2 s)) \<noteq> STALEMATE"
    if "gameStatus s \<noteq> STALEMATE"
    using that
    by (auto simp: makeAiMove_def Let_def split: sum.splits BestMove.splits option.splits
             dest!: ex [rotated] rnd [rotated])
  show ?thesis
    using ex ai by (auto simp: executeMove_def makeAiMove_def Let_def)
qed

theorem no_legal_moves_is_checkmate_witness:
  "(board_at stalemateBoard (mfrom stalemateMove) = Inr (Some \<lparr>ptype = ROOK, pcolor = RED\<rparr>)
    \<and> board_at stalemateBoard (mto stalemateMove) = Inr None
    \<and> map_option ptype None \<noteq> Some GENERAL
    \<and> legalMoves (newBoard stalemateBoard stalemateMove \<lparr>ptype = ROOK, pcolor = RED\<rparr>)
        (nextTurn RED) = []
    \<and> (\<exists>s'. executeMove legalMoves (freshState stalemateBoard RED) stalemateMove = Inr s'
          \<and> turn s' = nextTurn RED \<and> gameStatus s' = CHECKMATE
          \<and> gameStatus s' \<noteq> STALEMATE))
   \<and> (legalMoves stalematedBoard BLACK = []
    \<and> gameStatus (fst (makeAiMove legalMoves toEncoding serviceDown 0 0
                          (freshState stalematedBoard BLACK))) = CHECKMATE)
   \<and> (PLAYING \<noteq> STALEMATE
    \<and> gameStatus (fst (makeAiMove legalMoves toEncoding serviceDown 0 0
                          (freshState stalemateBoard RED))) \<noteq> STALEMATE)"
proof -
  have 1: "board_at stalemateBoard (mfrom stalemateMove)
             = Inr (Some \<lparr>ptype = ROOK, pcolor = RED\<rparr>)"
    by code_simp
  have 2: "board_at stalemateBoard (mto stalemateMove) = Inr None"
    by code_simp
  have 3: "map_option ptype None \<noteq> Some GENERAL"
    by simp
  have 4: "legalMoves (newBoard stalemateBoard stalemateMove \<lparr>ptype = ROOK, pcolor = RED\<rparr>)
             (nextTurn RED) = []"
    by (simp add: stalemateMove_newBoard nextTurn_def stalematedBoard_legalMoves)
  have 5: "legalMoves stalematedBoard BLACK = []"
    by (rule stalematedBoard_legalMoves)
  have 6: "PLAYING \<noteq> STALEMATE"
    by simp
  note a = no_legal_moves_is_checkmate
    [where s = "freshState stalemateBoard RED" and move = stalemateMove
       and p = "\<lparr>ptype = ROOK, pcolor = RED\<rparr>" and t = None and glm = legalMoves
       and sa = "freshState stalematedBoard BLACK" and b2f = toEncoding
       and gbm = serviceDown and ?u1.0 = 0 and ?u2.0 = 0,
     unfolded freshState_sel]
  show ?thesis
    using a 1 2 3 4 5 6 by blast
qed

text \<open>
  C3 as stated fails: after Red's rook move Black has no legal move and is not in check,
  a stalemate by the claim, and the status is CHECKMATE.
\<close>

theorem stalemate_reported_as_checkmate:
  "legalMoves stalematedBoard BLACK = []
   \<and> \<not> isInCheck stalematedBoard BLACK
   \<and> map_sum id board (executeMove legalMoves (freshState stalemateBoard RED) stalemateMove)
       = Inr stalematedBoard
   \<and> map_sum id turn (executeMove legalMoves (freshState stalemateBoard RED) stalemateMove)
       = Inr BLACK
   \<and> map_sum id gameStatus
        (executeMove legalMoves (freshState stalemateBoard RED) stalemateMove)
       = Inr CHECKMATE
   \<and> CHECKMATE \<noteq> STALEMATE"
proof -
  have 1: "board_at stalemateBoard (mfrom stalemateMove)
             = Inr (Some \<lparr>ptype = ROOK, pcolor = RED\<rparr>)"
    by code_simp
  have 2: "board_at stalemateBoard (mto stalemateMove) = Inr None"
    by code_simp
  have 3: "\<not> isInCheck stalematedBoard BLACK"
    by code_simp
  have 4: "executeMove legalMoves (freshState stalemateBoard RED) stalemateMove
             = Inr ((freshState stalemateBoard RED)
                      \<lparr>board := stalematedBoard, lastMove := Some stalemateMove,
                       selectedPos := None, validDestinations := [], turn := BLACK,
                       gameStatus := CHECKMATE\<rparr>)"
    using 1 2
    by (simp add: executeMove_def Let_def freshState_sel stalemateMove_newBoard nextTurn_def
          stalematedBoard_legalMoves)
  show ?thesis
    using 3 by (simp add: 4 stalematedBoard_legalMoves)
qed

text \<open>
  C4. For every applied move whose to-square holds a General, the status after
  \<open>executeMove\<close> is CHECKMATE, a status other than PLAYING, and the resulting state
  is the same for every legal-move generator: the generator is not called.
\<close>

theorem executeMove_general_capture_terminal:
  assumes "board_at (board s) (mfrom move) = Inr (Some p)"
    and "board_at (board s) (mto move) = Inr (Some g)"
    and "ptype g = GENERAL"
  shows "\<exists>s'. executeMove glm s move = Inr s' \<and> gameStatus s' = CHECKMATE
     \<and> gameStatus s' \<noteq> PLAYING
     \<and> (\<forall>glm'. executeMove glm' s move = Inr s')"
  using assms by (simp add: executeMove_def Let_def)

theorem executeMove_general_capture_terminal_witness:
  "board_at captureBoard (mfrom captureMove) = Inr (Some \<lparr>ptype = ROOK, pcolor = RED\<rparr>)
   \<and> board_at captureBoard (mto captureMove) = Inr (Some \<lparr>ptype = GENERAL, pcolor = BLACK\<rparr>)
   \<and> ptype \<lparr>ptype = GENERAL, pcolor = BLACK\<rparr> = GENERAL
   \<and> (\<exists>s'. executeMove legalMoves (freshState captureBoard RED) captureMove = Inr s'
     \<and> gameStatus s' = CHECKMATE \<and> gameStatus s' \<noteq> PLAYING
     \<and> (\<forall>glm'. executeMove glm' (freshState captureBoard RED) captureMove = Inr s'))"
proof -
  have 1: "board_at captureBoard (mfrom captureMove)
             = Inr (Some \<lparr>ptype = ROOK, pcolor = RED\<rparr>)"
    by code_simp
  have 2: "board_at captureBoard (mto captureMove)
             = Inr (Some \<lparr>ptype = GENERAL, pcolor = BLACK\<rparr>)"
    by code_simp
  have 3: "ptype \<lparr>ptype = GENERAL, pcolor = BLACK\<rparr> = GENERAL"
    by simp
  note a = executeMove_general_capture_terminal
    [where s = "freshState captureBoard RED" and glm = legalMoves,
     unfolded freshState_sel, OF 1 2 3]
  show ?thesis
    using a 1 2 3 by blast
qed

text \<open>
  C5. On the store: for every well-formed board and every applied move,
  \<open>executeMoveS\<close> installs a board at a newly allocated address; every object that
  was in the store is still there unchanged, so the board that was current before the
  call reads as before at every square; and in the new board every square other than the
  move's from-square and to-square reads what it read in the old board.
\<close>

theorem executeMoveS_fresh_board:
  assumes wf: "wf_board h (board s)"
    and fr: "store_at h (board s) (mfrom move) = Inr (Some p)"
    and tt: "py (mto move) < length (rowsOf h (board s))"
  shows "\<exists>h' s'. executeMoveS glm (h, s) move = Inr (h', s')
     \<and> length h \<le> board s' \<and> board s' \<noteq> board s \<and> wf_board h' (board s')
     \<and> take (length h) h' = h
     \<and> (\<forall>q. store_at h' (board s) q = store_at h (board s) q)
     \<and> (\<forall>q. q \<noteq> mfrom move \<and> q \<noteq> mto move
            \<longrightarrow> store_at h' (board s') q = store_at h (board s) q)"
proof -
  obtain h1 nb where cp: "copyBoard h (board s) = (h1, nb)"
    by (cases "copyBoard h (board s)")
  define h3 where "h3 = store_set (store_set h1 nb (mto move) (Some p)) nb (mfrom move) None"
  have f: "py (mfrom move) < length (rowsOf h (board s))"
    using fr board_at_in_range by (fastforce simp: store_at_abs)
  obtain tp where tp: "store_at h (board s) (mto move) = Inr tp"
    using tt by (simp add: store_at_def)
  note m = moved_on_copy [OF wf cp f tt h3_def]
  have run: "\<exists>s'. executeMoveS glm (h, s) move = Inr (h3, s') \<and> board s' = nb"
    using fr tp cp by (simp add: executeMoveS_def Let_def h3_def)
  then obtain s' where s': "executeMoveS glm (h, s) move = Inr (h3, s')" "board s' = nb"
    by blast
  have old: "store_at h3 (board s) q = store_at h (board s) q" for q
    using old_board_kept [OF wf m(2)] by (simp add: store_at_abs)
  have new: "store_at h3 nb q = store_at h (board s) q"
    if "q \<noteq> mfrom move \<and> q \<noteq> mto move" for q
    using that f tt by (simp add: store_at_abs m(1) board_at_newBoard)
  have ne: "nb \<noteq> board s" using m(4) wf_board_rows(1) [OF wf] by simp
  show ?thesis
    using s' m(2,3,4) old new ne by auto
qed

theorem executeMoveS_fresh_board_witness:
  "wf_board (storeOf initialBoard) 10
   \<and> store_at (storeOf initialBoard) 10 (mfrom cannonMove)
       = Inr (Some \<lparr>ptype = CANNON, pcolor = RED\<rparr>)
   \<and> py (mto cannonMove) < length (rowsOf (storeOf initialBoard) 10)
   \<and> (\<exists>h' s'. executeMoveS legalMoves (storeOf initialBoard, freshState 10 RED) cannonMove
                  = Inr (h', s')
     \<and> length (storeOf initialBoard) \<le> board s'
     \<and> board s' \<noteq> 10 \<and> wf_board h' (board s')
     \<and> take (length (storeOf initialBoard)) h' = storeOf initialBoard
     \<and> (\<forall>q. store_at h' 10 q = store_at (storeOf initialBoard) 10 q)
     \<and> (\<forall>q. q \<noteq> mfrom cannonMove \<and> q \<noteq> mto cannonMove
            \<longrightarrow> store_at h' (board s') q = store_at (storeOf initialBoard) 10 q))"
proof -
  have 1: "wf_board (storeOf initialBoard) 10"
    by code_simp
  have 2: "store_at (storeOf initialBoard) 10 (mfrom cannonMove)
             = Inr (Some \<lparr>ptype = CANNON, pcolor = RED\<rparr>)"
    by code_simp
  have 3: "py (mto cannonMove) < length (rowsOf (storeOf initialBoard) 10)"
    by code_simp
  note a = executeMoveS_fresh_board
    [where h = "storeOf initialBoard" and s = "freshState 10 RED" and glm = legalMoves,
     unfolded freshState_sel, OF 1 2 3]
  show ?thesis
    using a 1 2 3 by blast
qed



text \<open>
  C7, amended. \<open>makeAiMove\<close> applies whatever move the service resolves to: when the
  legal-move list is not empty, the move's from-square holds a piece and the row of its
  to-square exists, the move is executed and recorded, with no test of membership in the
  legal-move list.
\<close>

theorem makeAiMove_applies_suggestion:
  assumes "gbm (b2f (board s) (turn s)) (difficulty s) (glm (board s) (turn s)) RED
             = Resolves (Some m)"
    and "glm (board s) (turn s) \<noteq> []"
    and "board_at (board s) (mfrom m) = Inr (Some p)" and "py (mto m) < length (board s)"
  shows "\<exists>s'. executeMove glm (s\<lparr>isAiThinking := True, aiError := None\<rparr>) m = Inr s'
     \<and> makeAiMove glm b2f gbm u1 u2 s = (s'\<lparr>isAiThinking := False\<rparr>, None)
     \<and> board s' = newBoard (board s) m p \<and> lastMove s' = Some m"
proof -
  let ?sa = "s\<lparr>isAiThinking := True, aiError := None\<rparr>"
  have "board_at (board ?sa) (mfrom m) = Inr (Some p)" "py (mto m) < length (board ?sa)"
    using assms(3,4) by simp_all
  from executeMove_applies [OF this, of glm]
  obtain s' where s': "executeMove glm ?sa m = Inr s'" "board s' = newBoard (board s) m p"
    "lastMove s' = Some m" by auto
  have "makeAiMove glm b2f gbm u1 u2 s = (s'\<lparr>isAiThinking := False\<rparr>, None)"
    using assms(1,2) s'(1) by (rule makeAiMove_resolved)
  then show ?thesis using s' by blast
qed

theorem makeAiMove_applies_suggestion_witness:
  "suggestIllegal (toEncoding aiBoard BLACK) MEDIUM (legalMoves aiBoard BLACK) RED
     = Resolves (Some illegalMove)
   \<and> legalMoves aiBoard BLACK \<noteq> []
   \<and> board_at aiBoard (mfrom illegalMove) = Inr (Some \<lparr>ptype = ROOK, pcolor = BLACK\<rparr>)
   \<and> py (mto illegalMove) < length aiBoard
   \<and> (\<exists>s'. executeMove legalMoves
              ((freshState aiBoard BLACK)\<lparr>isAiThinking := True, aiError := None\<rparr>)
              illegalMove = Inr s'
     \<and> makeAiMove legalMoves toEncoding suggestIllegal 0 0 (freshState aiBoard BLACK)
         = (s'\<lparr>isAiThinking := False\<rparr>, None)
     \<and> board s' = newBoard aiBoard illegalMove \<lparr>ptype = ROOK, pcolor = BLACK\<rparr>
     \<and> lastMove s' = Some illegalMove)"
proof -
  have 1: "suggestIllegal (toEncoding aiBoard BLACK) MEDIUM (legalMoves aiBoard BLACK) RED
             = Resolves (Some illegalMove)"
    by (simp add: suggestIllegal_def)
  have 2: "legalMoves aiBoard BLACK \<noteq> []"
    by (simp add: aiBoard_legalMoves)
  have 3: "board_at aiBoard (mfrom illegalMove) = Inr (Some \<lparr>ptype = ROOK, pcolor = BLACK\<rparr>)"
    by code_simp
  have 4: "py (mto illegalMove) < length aiBoard"
    by code_simp
  note a = makeAiMove_applies_suggestion
    [where gbm = suggestIllegal and b2f = toEncoding and glm = legalMoves
       and s = "freshState aiBoard BLACK" and m = illegalMove and ?u1.0 = 0 and ?u2.0 = 0,
     unfolded freshState_sel, OF 1 2 3 4]
  show ?thesis
    using a 1 2 3 4 by blast
qed

text \<open>
  C7 as stated fails: the service answers with a rook move that is not in the legal-move
  list, and the move is applied, the Black rook landing on the Red rook's square.
\<close>

theorem makeAiMove_illegal_suggestion_applied:
  "illegalMove \<notin> set (legalMoves aiBoard BLACK)
   \<and> (\<exists>s'. makeAiMove legalMoves toEncoding suggestIllegal 0 0 (freshState aiBoard BLACK)
              = (s', None)
        \<and> lastMove s' = Some illegalMove
        \<and> board s' = newBoard aiBoard illegalMove \<lparr>ptype = ROOK, pcolor = BLACK\<rparr>
        \<and> board_at (board s') \<lparr>px = 8, py = 9\<rparr> = Inr (Some \<lparr>ptype = ROOK, pcolor = BLACK\<rparr>)
        \<and> board_at (board s') \<lparr>px = 0, py = 0\<rparr> = Inr None)"
proof -
  let ?s = "freshState aiBoard BLACK"
  let ?st = "?s\<lparr>isAiThinking := True, aiError := None\<rparr>"
  have 0: "illegalMove \<notin> set (legalMoves aiBoard BLACK)"
    unfolding aiBoard_legalMoves by code_simp
  have 1: "suggestIllegal (toEncoding (board ?s) (turn ?s)) (difficulty ?s)
             (legalMoves (board ?s) (turn ?s)) RED = Resolves (Some illegalMove)"
    by (simp add: suggestIllegal_def)
  have 2: "legalMoves (board ?s) (turn ?s) \<noteq> []"
    by (simp add: freshState_sel aiBoard_legalMoves)
  have 5: "board ?st = aiBoard"
    by (simp add: freshState_def)
  have 3: "board_at (board ?st) (mfrom illegalMove)
             = Inr (Some \<lparr>ptype = ROOK, pcolor = BLACK\<rparr>)"
    unfolding 5 by code_simp
  have 4: "py (mto illegalMove) < length (board ?st)"
    unfolding 5 by code_simp
  have 6: "board_at (newBoard aiBoard illegalMove \<lparr>ptype = ROOK, pcolor = BLACK\<rparr>)
             \<lparr>px = 8, py = 9\<rparr> = Inr (Some \<lparr>ptype = ROOK, pcolor = BLACK\<rparr>)"
    "board_at (newBoard aiBoard illegalMove \<lparr>ptype = ROOK, pcolor = BLACK\<rparr>)
             \<lparr>px = 0, py = 0\<rparr> = Inr None"
    by code_simp+
  from executeMove_applies [OF 3 4, of legalMoves]
  obtain s' where s': "executeMove legalMoves ?st illegalMove = Inr s'"
    "board s' = newBoard aiBoard illegalMove \<lparr>ptype = ROOK, pcolor = BLACK\<rparr>"
    "lastMove s' = Some illegalMove"
    unfolding 5 by blast
  have "makeAiMove legalMoves toEncoding suggestIllegal 0 0 ?s
          = (s'\<lparr>isAiThinking := False\<rparr>, None)"
    using 1 2 s'(1) by (rule makeAiMove_resolved)
  then show ?thesis using 0 s'(2,3) 6 by simp
qed



text \<open>
  C9. With the parser and the serializer of the specification: parsing the starting
  encoding gives the standard position with Red to move, serializing that position with
  Red to move gives the starting encoding back, and \<open>resetGame\<close> with that parser
  makes Red the side to move.
\<close>

theorem initial_fen_roundtrip:
  "createFromEncoding INITIAL_FEN = Inr (initialBoard, RED)
   \<and> toEncoding initialBoard RED = INITIAL_FEN
   \<and> map_sum id (\<lambda>(b, c). toEncoding b c) (createFromEncoding INITIAL_FEN) = Inr INITIAL_FEN
   \<and> map_sum id snd (createFromEncoding INITIAL_FEN) = Inr RED
   \<and> map_sum id turn (resetGame createFromEncoding s) = Inr RED"
proof -
  have 1: "createFromEncoding INITIAL_FEN = Inr (initialBoard, RED)"
    by code_simp
  have 2: "toEncoding initialBoard RED = INITIAL_FEN"
    by code_simp
  show ?thesis
    by (simp add: 1 2 resetGame_def)
qed

text \<open>
  C10. A move whose from-square is empty (the row exists and the square holds no piece):
  \<open>executeMove\<close> returns at line 77 and the whole state, board, turn, game status,
  last move and selection included, is the state it was called in.
\<close>

theorem executeMove_empty_from_noop:
  assumes "board_at (board s) (mfrom move) = Inr None"
  shows "executeMove glm s move = Inr s"
  using assms by (simp add: executeMove_def)

theorem executeMove_empty_from_noop_witness:
  "board_at initialBoard (mfrom emptyFromMove) = Inr None
   \<and> executeMove legalMoves (freshState initialBoard RED) emptyFromMove
       = Inr (freshState initialBoard RED)"
proof -
  have 1: "board_at initialBoard (mfrom emptyFromMove) = Inr None"
    by code_simp
  note a = executeMove_empty_from_noop
    [where s = "freshState initialBoard RED" and glm = legalMoves,
     unfolded freshState_sel, OF 1]
  show ?thesis
    using a 1 by blast
qed

end
